theory Spec2Isabelle
  imports Main
begin

section \<open>The locator of internal/constants.go\<close>

text \<open>
  The Go package \<^verbatim>\<open>internal\<close> computes socket, configuration and log paths from a user
  identity and from what the operating system answers to three kinds of question:
  \<^verbatim>\<open>os.Stat\<close> on a path, \<^verbatim>\<open>user.LookupId\<close> and \<^verbatim>\<open>user.LookupGroup\<close>. The model makes
  those answers an explicit argument (\<open>os_state\<close>), the two package variables an explicit
  argument (\<open>globals\<close>), a Go \<^verbatim>\<open>error\<close> a value of \<open>go_error option\<close> (\<open>None\<close> is
  \<^verbatim>\<open>nil\<close>), a pointer that may be \<^verbatim>\<open>nil\<close> an \<open>option\<close>, and a run-time panic an
  \<open>outcome\<close>.
\<close>

subsection \<open>Constants\<close>

definition LogPath :: string where
  "LogPath = ''/var/log/nordvpn/''"

definition NordvpnGroup :: string where
  "NordvpnGroup = ''nordvpn''"

definition Fileshared :: string where
  "Fileshared = ''nordfileshared''"

definition ConfigDirectory :: string where
  "ConfigDirectory = ''.config''"

definition UserDataPath :: string where
  "UserDataPath = ''nordvpn/''"

subsection \<open>Errors, records of os/user, the state of the machine\<close>

text \<open>The error numbers \<^verbatim>\<open>stat(2)\<close> reports.\<close>

datatype errno = ENOENT | ENOTDIR | EACCES | ELOOP | ENAMETOOLONG | EIO | ENOMEM

datatype num_err = ErrSyntax | ErrRange

text \<open>
  The error values that reach this package: \<open>ErrorString\<close> is what \<^verbatim>\<open>errors.New\<close> and
  \<^verbatim>\<open>fmt.Errorf\<close> build, \<open>PathError\<close> is what \<^verbatim>\<open>os.Stat\<close> returns (operation, path, error
  number), \<open>NumError\<close> is strconv's (function, input, kind), the others are os/user's.
\<close>

datatype go_error =
    ErrorString string
  | PathError string string errno
  | UnknownUserIdError int
  | UnknownGroupError string
  | LookupError string
  | NumError string string num_err

text \<open>
  \<^verbatim>\<open>user.User\<close> and \<^verbatim>\<open>user.Group\<close>. Two fields are renamed, since the fields of two
  records cannot share a name: \<open>UserGid\<close> is \<^verbatim>\<open>User.Gid\<close> and \<open>GroupName\<close> is
  \<^verbatim>\<open>Group.Name\<close>.
\<close>

record User =
  Uid :: string
  UserGid :: string
  Username :: string
  Name :: string
  HomeDir :: string

record Group =
  Gid :: string
  GroupName :: string

text \<open>
  What the machine answers: the error number of \<^verbatim>\<open>stat\<close> on each path (\<open>None\<close>: the
  call succeeds), the user database by uid string and the group database by name. The
  functions below take an \<open>'a os_state_scheme\<close>: the extension slot of the record stands
  for whatever else the machine holds (other files' contents, the environment, the clock).
\<close>

record os_state =
  stat_errno :: "string \<Rightarrow> errno option"
  passwd :: "string \<Rightarrow> go_error + User"
  groupdb :: "string \<Rightarrow> go_error + Group"

text \<open>The package variables \<^verbatim>\<open>PlatformSupportsIPv4\<close> and \<^verbatim>\<open>PlatformSupportsIPv6\<close>.\<close>

record globals =
  PlatformSupportsIPv4 :: bool
  PlatformSupportsIPv6 :: bool

text \<open>Their initial values, as the \<^verbatim>\<open>var\<close> block sets them.\<close>

definition initial_globals :: globals where
  "initial_globals = \<lparr>PlatformSupportsIPv4 = True, PlatformSupportsIPv6 = True\<rparr>"

datatype 'a outcome = Return 'a | Panic

text \<open>
  A line written by \<^verbatim>\<open>log.Printf\<close>: the format string and its arguments. \<open>ErrorText e\<close>
  stands for the string \<^verbatim>\<open>e.Error()\<close>, whose wording is not modelled. The date and time
  that the logger puts in front of each line are not part of it.
\<close>

datatype log_arg = Str string | ErrorText go_error

type_synonym log_line = "string \<times> log_arg list"

subsection \<open>The standard library, as far as the package calls it\<close>

text \<open>\<^verbatim>\<open>os.Stat\<close>: the file information is dropped at both call sites, the error is kept.\<close>

definition Stat :: "'a os_state_scheme \<Rightarrow> string \<Rightarrow> go_error option" where
  "Stat os name = map_option (PathError ''stat'' name) (stat_errno os name)"

text \<open>
  \<^verbatim>\<open>os.IsNotExist\<close>: false on \<^verbatim>\<open>nil\<close>; on a path error it looks at the error number
  underneath, and only \<^verbatim>\<open>ENOENT\<close> is "does not exist".
\<close>

fun IsNotExist :: "go_error option \<Rightarrow> bool" where
  "IsNotExist (Some (PathError opn name e)) = (e = ENOENT)"
| "IsNotExist _ = False"

text \<open>
  A path exists, as far as the process can tell, when \<^verbatim>\<open>stat\<close> on it succeeds: the
  test \<^verbatim>\<open>err == nil\<close> that \<^verbatim>\<open>GetFilesharedConfigDirPath\<close> applies.
\<close>

definition path_exists :: "'a os_state_scheme \<Rightarrow> string \<Rightarrow> bool" where
  "path_exists os name = (stat_errno os name = None)"

text \<open>
  \<^verbatim>\<open>user.LookupId\<close> and \<^verbatim>\<open>user.LookupGroup\<close> return a pointer and an error: the pointer is
  \<^verbatim>\<open>nil\<close> on every error path of os/user, the error is \<^verbatim>\<open>nil\<close> on success.
\<close>

definition LookupId :: "'a os_state_scheme \<Rightarrow> string \<Rightarrow> User option \<times> go_error option" where
  "LookupId os uid = (case passwd os uid of Inl e \<Rightarrow> (None, Some e) | Inr u \<Rightarrow> (Some u, None))"

definition LookupGroup :: "'a os_state_scheme \<Rightarrow> string \<Rightarrow> Group option \<times> go_error option" where
  "LookupGroup os name = (case groupdb os name of Inl e \<Rightarrow> (None, Some e) | Inr g \<Rightarrow> (Some g, None))"

text \<open>Decimal formatting, the verb \<^verbatim>\<open>%d\<close> of fmt and \<^verbatim>\<open>strconv.Itoa\<close>.\<close>

definition digit_char :: "nat \<Rightarrow> char" where
  "digit_char d = ''0123456789'' ! d"

function digits10 :: "nat \<Rightarrow> string" where
  "digits10 n = (if n < 10 then [digit_char n] else digits10 (n div 10) @ [digit_char (n mod 10)])"
  by pat_completeness auto
termination
  by (relation "measure (\<lambda>n. n)") auto

definition Itoa :: "int \<Rightarrow> string" where
  "Itoa i = (if i < 0 then CHR ''-'' # digits10 (nat (- i)) else digits10 (nat i))"

text \<open>
  \<^verbatim>\<open>filepath.Clean\<close> on Unix. The buffer \<open>out\<close> holds what has been written (its length
  is the write index \<^verbatim>\<open>out.w\<close>), \<open>dotdot\<close> is the index where a \<^verbatim>\<open>..\<close> must stop.
  \<open>at_sep s\<close> is the test \<^verbatim>\<open>r == n || os.IsPathSeparator(path[r])\<close> on the rest \<open>s\<close> of
  the path.
\<close>

definition at_sep :: "string \<Rightarrow> bool" where
  "at_sep s = (case s of [] \<Rightarrow> True | c # cs \<Rightarrow> c = CHR ''/'')"

text \<open>
  The backtracking of a \<^verbatim>\<open>..\<close> element: after \<^verbatim>\<open>out.w--\<close> the write index \<open>w\<close> goes
  down while \<^verbatim>\<open>out.w > dotdot && !os.IsPathSeparator(out.index(out.w))\<close>.
\<close>

fun backtrack :: "string \<Rightarrow> nat \<Rightarrow> nat \<Rightarrow> nat" where
  "backtrack buf dotdot 0 = 0"
| "backtrack buf dotdot (Suc w) =
     (if Suc w > dotdot \<and> buf ! Suc w \<noteq> CHR ''/'' then backtrack buf dotdot w else Suc w)"

function clean_loop :: "bool \<Rightarrow> string \<Rightarrow> string \<times> nat \<Rightarrow> string \<times> nat" where
  "clean_loop rooted [] (out, dotdot) = (out, dotdot)"
| "clean_loop rooted (c # cs) (out, dotdot) =
     (if c = CHR ''/'' then clean_loop rooted cs (out, dotdot)
      else if c = CHR ''.'' \<and> at_sep cs then clean_loop rooted cs (out, dotdot)
      else if c = CHR ''.'' \<and> take 1 cs = ''.'' \<and> at_sep (drop 1 cs) then
        (if length out > dotdot
         then clean_loop rooted (drop 1 cs)
                (take (backtrack out dotdot (length out - 1)) out, dotdot)
         else if \<not> rooted
         then (let out1 = (if length out > 0 then out @ ''/'' else out) @ ''..''
               in clean_loop rooted (drop 1 cs) (out1, length out1))
         else clean_loop rooted (drop 1 cs) (out, dotdot))
      else
        (let out1 = (if rooted \<and> length out \<noteq> 1 \<or> \<not> rooted \<and> length out \<noteq> 0
                     then out @ ''/'' else out)
         in clean_loop rooted (dropWhile (\<lambda>x. x \<noteq> CHR ''/'') (c # cs))
              (out1 @ takeWhile (\<lambda>x. x \<noteq> CHR ''/'') (c # cs), dotdot)))"
  by pat_completeness auto
termination
  by (relation "measure (\<lambda>(rooted, path, st). length path)")
     (auto simp: le_imp_less_Suc length_dropWhile_le)

definition Clean :: "string \<Rightarrow> string" where
  "Clean path =
     (if path = [] then ''.''
      else
        (let rooted = (hd path = CHR ''/'');
             (out, dotdot) = (if rooted then clean_loop rooted (tl path) (''/'', 1)
                              else clean_loop rooted path ([], 0))
         in if length out = 0 then ''.'' else out))"

text \<open>\<^verbatim>\<open>strings.Join\<close> and \<^verbatim>\<open>filepath.Join\<close> (Unix): leading empty elements are skipped.\<close>

fun strings_Join :: "string list \<Rightarrow> string \<Rightarrow> string" where
  "strings_Join [] sep = []"
| "strings_Join [e] sep = e"
| "strings_Join (e # es) sep = e @ sep @ strings_Join es sep"

fun Join :: "string list \<Rightarrow> string" where
  "Join [] = []"
| "Join (e # es) = (if e \<noteq> [] then Clean (strings_Join (e # es) ''/'') else Join es)"

text \<open>
  \<^verbatim>\<open>strconv.Atoi\<close> for a 64-bit \<^verbatim>\<open>int\<close>, through \<^verbatim>\<open>ParseInt(s, 10, 0)\<close> and
  \<^verbatim>\<open>ParseUint\<close> (the fast path of \<^verbatim>\<open>Atoi\<close> for short strings computes the same). The
  digit is the byte \<^verbatim>\<open>c - '0'\<close>, which wraps below \<^verbatim>\<open>'0'\<close>.
\<close>

fun ParseUint_loop :: "int \<Rightarrow> string \<Rightarrow> int \<times> num_err option" where
  "ParseUint_loop n [] = (n, None)"
| "ParseUint_loop n (c # s) =
     (let d = (of_char c + 256 - 48) mod 256 in
      if d > 9 then (0, Some ErrSyntax)
      else if n \<ge> (2 ^ 64 - 1) div 10 + 1 then (2 ^ 64 - 1, Some ErrRange)
      else if n * 10 + d > 2 ^ 64 - 1 then (2 ^ 64 - 1, Some ErrRange)
      else ParseUint_loop (n * 10 + d) s)"

definition ParseUint :: "string \<Rightarrow> int \<times> num_err option" where
  "ParseUint s = (if s = [] then (0, Some ErrSyntax) else ParseUint_loop 0 s)"

definition Atoi :: "string \<Rightarrow> int \<times> go_error option" where
  "Atoi s0 =
     (if s0 = [] then (0, Some (NumError ''Atoi'' s0 ErrSyntax))
      else
        (let neg = (hd s0 = CHR ''-'');
             s = (if hd s0 = CHR ''+'' \<or> hd s0 = CHR ''-'' then tl s0 else s0);
             (un, err) = ParseUint s
         in if err \<noteq> None \<and> err \<noteq> Some ErrRange then (0, Some (NumError ''Atoi'' s0 ErrSyntax))
            else if \<not> neg \<and> un \<ge> 2 ^ 63 then (2 ^ 63 - 1, Some (NumError ''Atoi'' s0 ErrRange))
            else if neg \<and> un > 2 ^ 63 then (- (2 ^ 63), Some (NumError ''Atoi'' s0 ErrRange))
            else (if neg then - un else un, None)))"

subsection \<open>GetSupportedIPTables\<close>

definition GetSupportedIPTables :: "globals \<Rightarrow> string list" where
  "GetSupportedIPTables g =
     (let iptables = [];
          iptables = (if PlatformSupportsIPv4 g then iptables @ [''iptables''] else iptables);
          iptables = (if PlatformSupportsIPv6 g then iptables @ [''ip6tables''] else iptables)
      in iptables)"

subsection \<open>GetFilesharedSocket\<close>

definition GetFilesharedSocket :: "'a os_state_scheme \<Rightarrow> int \<Rightarrow> string" where
  "GetFilesharedSocket os uid =
     (let err = Stat os (''/run/user/'' @ Itoa uid) in
      if uid = 0 \<or> IsNotExist err
      then ''/run/'' @ Fileshared @ ''/'' @ Fileshared @ ''.sock''
      else ''/run/user/'' @ Itoa uid @ ''/'' @ Fileshared @ ''/'' @ Fileshared @ ''.sock'')"

subsection \<open>GetFilesharedConfigDirPath\<close>

definition GetFilesharedConfigDirPath ::
  "'a os_state_scheme \<Rightarrow> string \<Rightarrow> string \<times> go_error option" where
  "GetFilesharedConfigDirPath os homeDirectory =
     (if homeDirectory = [] then ([], Some (ErrorString ''user does not have a home directory''))
      else
        (let userConfigPath = Join [homeDirectory, ConfigDirectory, UserDataPath];
             err = Stat os userConfigPath
         in if err = None then (userConfigPath, None)
            else ([], Some (ErrorString
                   (ConfigDirectory @ '' directory not found in users home directory'')))))"

subsection \<open>GetFilesharedLogPath\<close>

text \<open>
  The result is the lines logged and the outcome. \<^verbatim>\<open>usr.HomeDir\<close> reads through the
  pointer \<open>usr\<close>: on \<^verbatim>\<open>nil\<close> the Go run time panics.
\<close>

definition GetFilesharedLogPath ::
  "'a os_state_scheme \<Rightarrow> string \<Rightarrow> log_line list \<times> string outcome" where
  "GetFilesharedLogPath os uid =
     (let filesharedLogFilename = Fileshared @ ''.log'' in
      if uid = ''0'' then ([], Return (Join [LogPath, filesharedLogFilename]))
      else
        (let (usr, err) = LookupId os uid;
             logged = (case err of
                 Some e \<Rightarrow> [(''failed to lookup user, users fileshared logs will be stored in %s: %s'',
                              [Str LogPath, ErrorText e])]
               | None \<Rightarrow> [])
         in case usr of
              None \<Rightarrow> (logged, Panic)
            | Some u \<Rightarrow>
                (let (configDir, err) = GetFilesharedConfigDirPath os (HomeDir u) in
                 case err of
                   Some e \<Rightarrow>
                     (logged @ [(''users fileshared logs will be stored in %s: %s'',
                                 [Str LogPath, ErrorText e])],
                      Return (Join [LogPath, Fileshared @ ''-'' @ uid @ ''.log'']))
                 | None \<Rightarrow> (logged, Return (Join [configDir, filesharedLogFilename])))))"

subsection \<open>GetNordvpnGid\<close>

text \<open>\<^verbatim>\<open>group.Gid\<close> reads through the pointer \<open>group\<close>.\<close>

definition GetNordvpnGid :: "'a os_state_scheme \<Rightarrow> (int \<times> go_error option) outcome" where
  "GetNordvpnGid os =
     (let (group, err) = LookupGroup os NordvpnGroup in
      if err \<noteq> None then Return (0, err)
      else case group of None \<Rightarrow> Panic | Some g \<Rightarrow> Return (Atoi (Gid g)))"

section \<open>Facts about the library functions\<close>

subsection \<open>Probing a path\<close>

lemma IsNotExist_Stat: "IsNotExist (Stat os name) = (stat_errno os name = Some ENOENT)"
  by (cases "stat_errno os name") (simp_all add: Stat_def)

lemma Stat_eq_None: "(Stat os name = None) = (stat_errno os name = None)"
  by (simp add: Stat_def)

subsection \<open>Cleaning a path\<close>

text \<open>
  The loop of \<open>Clean\<close> treats a path one element at a time: what it does before a
  separator does not depend on what follows the separator.
\<close>

lemma at_sep_append: "at_sep (xs @ CHR ''/'' # ys) = at_sep xs"
  by (cases xs) (simp_all add: at_sep_def)

lemma takeWhile_upto_sep:
  "takeWhile (\<lambda>x. x \<noteq> CHR ''/'') (xs @ CHR ''/'' # ys) = takeWhile (\<lambda>x. x \<noteq> CHR ''/'') xs"
  by (induction xs) simp_all

lemma dropWhile_upto_sep:
  "dropWhile (\<lambda>x. x \<noteq> CHR ''/'') (xs @ CHR ''/'' # ys) = dropWhile (\<lambda>x. x \<noteq> CHR ''/'') xs @ CHR ''/'' # ys"
  by (induction xs) simp_all

lemma clean_loop_split:
  "clean_loop rooted (xs @ CHR ''/'' # ys) st = clean_loop rooted (CHR ''/'' # ys) (clean_loop rooted xs st)"
proof (induction rooted xs st rule: clean_loop.induct)
  case (1 rooted out dotdot)
  show ?case by simp
next
  case (2 rooted c cs out dotdot)
  show ?case
  proof (cases "c = CHR ''/''")
    case True
    with 2 show ?thesis by simp
  next
    case nosep: False
    show ?thesis
    proof (cases "c = CHR ''.'' \<and> at_sep cs")
      case True
      with nosep 2 show ?thesis by (simp add: at_sep_append)
    next
      case nodot: False
      show ?thesis
      proof (cases "c = CHR ''.'' \<and> take 1 cs = ''.'' \<and> at_sep (drop 1 cs)")
        case True
        then have cs: "cs \<noteq> []" by auto
        then have d: "drop 1 (cs @ CHR ''/'' # ys) = drop 1 cs @ CHR ''/'' # ys" by (cases cs) simp_all
        from True cs have t: "take 1 (cs @ CHR ''/'' # ys) = ''.''" by (cases cs) simp_all
        from True nosep nodot 2(3,4,5) show ?thesis
          apply (simp only: append_Cons clean_loop.simps(2) at_sep_append t d Let_def)
          apply (simp add: Let_def)
          done
      next
        case False
        have dw: "dropWhile (\<lambda>x. x \<noteq> CHR ''/'') (c # cs @ CHR ''/'' # ys) =
                  dropWhile (\<lambda>x. x \<noteq> CHR ''/'') (c # cs) @ CHR ''/'' # ys"
          using dropWhile_upto_sep [of "c # cs" ys] by simp
        have tw: "takeWhile (\<lambda>x. x \<noteq> CHR ''/'') (c # cs @ CHR ''/'' # ys) =
                  takeWhile (\<lambda>x. x \<noteq> CHR ''/'') (c # cs)"
          using takeWhile_upto_sep [of "c # cs" ys] by simp
        have c3: "\<not> (c = CHR ''.'' \<and> take 1 (cs @ CHR ''/'' # ys) = ''.'' \<and> at_sep (drop 1 (cs @ CHR ''/'' # ys)))"
        proof (cases cs)
          case Nil
          then show ?thesis by simp
        next
          case (Cons d ds)
          with False show ?thesis by (simp add: at_sep_append)
        qed
        from nosep nodot False 2(6)[OF nosep nodot False refl] c3 show ?thesis
          by (simp only: append_Cons clean_loop.simps(2) at_sep_append dw tw Let_def if_False)
      qed
    qed
  qed
qed

lemma clean_loop_config_suffix:
  "clean_loop rooted ''/.config/nordvpn/'' (out, dotdot) =
     ((if rooted \<and> length out \<noteq> 1 \<or> \<not> rooted \<and> length out \<noteq> 0 then out @ ''/'' else out)
        @ ''.config/nordvpn'', dotdot)"
  by (simp add: at_sep_def Let_def)

lemma Clean_rooted_fixpoint:
  assumes "Clean home = home" and "hd home = CHR ''/''"
  shows "fst (clean_loop True (tl home) (''/'', 1)) = home"
proof -
  from assms have ne: "home \<noteq> []" by (auto simp: Clean_def)
  obtain out dotdot where l: "clean_loop True (tl home) (''/'', 1) = (out, dotdot)"
    by (cases "clean_loop True (tl home) (''/'', 1)")
  from assms ne l have "(if length out = 0 then ''.'' else out) = home"
    by (simp add: Clean_def)
  with assms(2) have "out = home" by (cases "length out = 0") auto
  with l show ?thesis by simp
qed

lemma Join_home_config:
  assumes "home \<noteq> []"
  shows "Join [home, ConfigDirectory, UserDataPath] = Clean (home @ ''/.config/nordvpn/'')"
  using assms by (simp add: ConfigDirectory_def UserDataPath_def)

lemma Clean_home_config:
  assumes "Clean home = home" and "hd home = CHR ''/''" and "home \<noteq> ''/''"
  shows "Clean (home @ ''/.config/nordvpn/'') = home @ ''/.config/nordvpn''"
proof -
  from assms have ne: "home \<noteq> []" by (auto simp: Clean_def)
  obtain out dotdot where l: "clean_loop True (tl home) (''/'', 1) = (out, dotdot)"
    by (cases "clean_loop True (tl home) (''/'', 1)")
  with Clean_rooted_fixpoint [OF assms(1,2)] have out: "out = home" by simp
  from ne assms(2,3) have len: "length home \<noteq> 1" by (cases home) auto
  have "clean_loop True (tl home @ ''/.config/nordvpn/'') (''/'', 1)
        = clean_loop True ''/.config/nordvpn/'' (home, dotdot)"
    using clean_loop_split [of True "tl home" "''.config/nordvpn/''" "(''/'', 1)"] l out by simp
  also have "\<dots> = (home @ ''/.config/nordvpn'', dotdot)"
    using len by (simp only: clean_loop_config_suffix) simp
  finally have "clean_loop True (tl home @ ''/.config/nordvpn/'') (''/'', 1) = (home @ ''/.config/nordvpn'', dotdot)" .
  with ne assms(2) show ?thesis by (simp add: Clean_def)
qed

lemma Clean_config_no_trailing_slash:
  assumes "home \<noteq> []"
  shows "\<exists>pre. Clean (home @ ''/.config/nordvpn/'') = pre @ ''.config/nordvpn''"
proof (cases "hd home = CHR ''/''")
  case True
  obtain out dotdot where l: "clean_loop True (tl home) (''/'', 1) = (out, dotdot)"
    by (cases "clean_loop True (tl home) (''/'', 1)")
  have "clean_loop True (tl home @ ''/.config/nordvpn/'') (''/'', 1)
        = ((if length out \<noteq> 1 then out @ ''/'' else out) @ ''.config/nordvpn'', dotdot)"
    using clean_loop_split [of True "tl home" "''.config/nordvpn/''" "(''/'', 1)"] l
    by (simp only: clean_loop_config_suffix) simp
  with True assms show ?thesis by (simp add: Clean_def)
next
  case False
  obtain out dotdot where l: "clean_loop False home ([], 0) = (out, dotdot)"
    by (cases "clean_loop False home ([], 0)")
  have "clean_loop False (home @ ''/.config/nordvpn/'') ([], 0)
        = ((if length out \<noteq> 0 then out @ ''/'' else out) @ ''.config/nordvpn'', dotdot)"
    using clean_loop_split [of False home "''.config/nordvpn/''" "([], 0)"] l
    by (simp only: clean_loop_config_suffix) simp
  with False assms show ?thesis by (simp add: Clean_def)
qed

lemma Join_LogPath_element:
  assumes "CHR ''/'' \<notin> set uid"
  shows "Join [LogPath, Fileshared @ ''-'' @ uid @ ''.log''] = ''/var/log/nordvpn/nordfileshared-'' @ uid @ ''.log''"
proof -
  have "takeWhile (\<lambda>x. x \<noteq> CHR ''/'') (uid @ ''.log'') = uid @ ''.log''"
    using assms by (auto simp: takeWhile_eq_all_conv)
  moreover have "dropWhile (\<lambda>x. x \<noteq> CHR ''/'') (uid @ ''.log'') = []"
    using assms by auto
  ultimately show ?thesis
    by (simp add: LogPath_def Fileshared_def Clean_def at_sep_def)
qed

subsection \<open>Decimal numbers\<close>

declare digits10.simps [simp del]

lemma digit_char_value:
  assumes "d < 10"
  shows "(of_char (digit_char d) + 256 - 48) mod 256 = int d"
proof -
  from assms have "d \<in> {0, 1, 2, 3, 4, 5, 6, 7, 8, 9}" by auto
  then show ?thesis by (auto simp: digit_char_def)
qed

lemma digit_char_not_sign:
  assumes "d < 10"
  shows "digit_char d \<noteq> CHR ''-'' \<and> digit_char d \<noteq> CHR ''+''"
proof -
  from assms have "d \<in> {0, 1, 2, 3, 4, 5, 6, 7, 8, 9}" by auto
  then show ?thesis by (auto simp: digit_char_def)
qed

lemma ParseUint_loop_append:
  "ParseUint_loop n (xs @ ys) =
     (case ParseUint_loop n xs of (m, None) \<Rightarrow> ParseUint_loop m ys | (m, Some e) \<Rightarrow> (m, Some e))"
  by (induction xs arbitrary: n) (simp_all add: Let_def)

lemma ParseUint_loop_digit:
  assumes "d < 10" and "0 \<le> m" and "m * 10 + int d < 2 ^ 64"
  shows "ParseUint_loop m [digit_char d] = (m * 10 + int d, None)"
proof -
  have v: "(of_char (digit_char d) + 256 - 48) mod 256 = int d"
    using assms(1) by (rule digit_char_value)
  have "ParseUint_loop m [digit_char d] =
          (if int d > 9 then (0, Some ErrSyntax)
           else if m \<ge> (2 ^ 64 - 1) div 10 + 1 then (2 ^ 64 - 1, Some ErrRange)
           else if m * 10 + int d > 2 ^ 64 - 1 then (2 ^ 64 - 1, Some ErrRange)
           else ParseUint_loop (m * 10 + int d) [])"
    unfolding ParseUint_loop.simps(2) Let_def v ..
  with assms show ?thesis by simp
qed

lemma ParseUint_loop_digits10:
  "int n < 2 ^ 64 \<Longrightarrow> ParseUint_loop 0 (digits10 n) = (int n, None)"
proof (induction n rule: digits10.induct)
  case (1 n)
  show ?case
  proof (cases "n < 10")
    case True
    then show ?thesis
      using ParseUint_loop_digit [of n 0] by (simp add: digits10.simps [of n])
  next
    case False
    have small: "int (n div 10) < 2 ^ 64" using "1.prems" by simp
    have eq: "int (n div 10) * 10 + int (n mod 10) = int n" by presburger
    have "ParseUint_loop (int (n div 10)) [digit_char (n mod 10)] = (int (n div 10) * 10 + int (n mod 10), None)"
    proof (rule ParseUint_loop_digit)
      show "n mod 10 < 10" by simp
      show "0 \<le> int (n div 10)" by simp
      show "int (n div 10) * 10 + int (n mod 10) < 2 ^ 64" using "1.prems" by (simp only: eq)
    qed
    with False "1.IH" [OF False small] eq show ?thesis
      by (simp add: digits10.simps [of n] ParseUint_loop_append del: ParseUint_loop.simps)
  qed
qed

lemma digits10_hd:
  "digits10 n \<noteq> [] \<and> hd (digits10 n) \<noteq> CHR ''-'' \<and> hd (digits10 n) \<noteq> CHR ''+''"
proof (induction n rule: digits10.induct)
  case (1 n)
  show ?case
  proof (cases "n < 10")
    case True
    then show ?thesis using digit_char_not_sign [of n] by (simp add: digits10.simps [of n])
  next
    case False
    with "1.IH" show ?thesis by (simp add: digits10.simps [of n])
  qed
qed

lemma Atoi_Itoa:
  assumes "0 \<le> k" and "k < 2 ^ 63"
  shows "Atoi (Itoa k) = (k, None)"
proof -
  have it: "Itoa k = digits10 (nat k)" using assms by (simp add: Itoa_def)
  have "int (nat k) < 2 ^ 64" using assms by simp
  then have "ParseUint_loop 0 (digits10 (nat k)) = (int (nat k), None)"
    by (rule ParseUint_loop_digits10)
  with assms digits10_hd [of "nat k"] show ?thesis
    by (simp add: it Atoi_def ParseUint_def)
qed

lemma Itoa_1000: "Itoa 1000 = ''1000''"
  by (simp add: Itoa_def digit_char_def digits10.simps)

section \<open>The operations\<close>

subsection \<open>The socket of the file-sharing service\<close>

lemma GetFilesharedSocket_cases:
  "GetFilesharedSocket os uid =
     (if uid = 0 \<or> stat_errno os (''/run/user/'' @ Itoa uid) = Some ENOENT
      then ''/run/nordfileshared/nordfileshared.sock''
      else ''/run/user/'' @ Itoa uid @ ''/nordfileshared/nordfileshared.sock'')"
  by (simp add: GetFilesharedSocket_def IsNotExist_Stat Fileshared_def)

text \<open>
  Claim C2 says that for a non-zero uid every error of the probe of \<^verbatim>\<open>/run/user/<uid>\<close>
  other than "not found" is treated as "not found", so that the system-wide socket path
  is returned. The code tests \<^verbatim>\<open>os.IsNotExist(err)\<close> only: with a permission error on
  \<^verbatim>\<open>/run/user/1000\<close> the call for uid 1000 returns the per-user path.
\<close>

theorem GetFilesharedSocket_permission_error_counterexample:
  "GetFilesharedSocket
     \<lparr>stat_errno = (\<lambda>name. if name = ''/run/user/1000'' then Some EACCES else None),
      passwd = (\<lambda>uid. Inl (LookupError ''unused'')),
      groupdb = (\<lambda>name. Inl (LookupError ''unused''))\<rparr> 1000
   = ''/run/user/1000/nordfileshared/nordfileshared.sock''"
  by (simp add: GetFilesharedSocket_cases Itoa_1000)

text \<open>
  Claim C2, as the code has it: for a non-zero uid, an error of the probe other than
  \<^verbatim>\<open>ENOENT\<close> is treated as success, and the per-user path is returned; only \<^verbatim>\<open>ENOENT\<close>
  gives the system-wide path. The result is a plain string, so no error reaches the
  caller.
\<close>

theorem GetFilesharedSocket_other_error:
  assumes "uid \<noteq> 0"
    and "stat_errno os (''/run/user/'' @ Itoa uid) = Some e"
  shows "GetFilesharedSocket os uid
         = (if e = ENOENT then ''/run/nordfileshared/nordfileshared.sock''
            else ''/run/user/'' @ Itoa uid @ ''/nordfileshared/nordfileshared.sock'')"
  using assms by (simp add: GetFilesharedSocket_cases)

theorem GetFilesharedSocket_other_error_witness:
  "GetFilesharedSocket
     \<lparr>stat_errno = (\<lambda>name. Some EIO),
      passwd = (\<lambda>uid. Inl (LookupError ''unused'')),
      groupdb = (\<lambda>name. Inl (LookupError ''unused''))\<rparr> 1000
   = ''/run/user/1000/nordfileshared/nordfileshared.sock'' \<and>
   GetFilesharedSocket
     \<lparr>stat_errno = (\<lambda>name. Some ENOENT),
      passwd = (\<lambda>uid. Inl (LookupError ''unused'')),
      groupdb = (\<lambda>name. Inl (LookupError ''unused''))\<rparr> 1000
   = ''/run/nordfileshared/nordfileshared.sock''"
  using GetFilesharedSocket_other_error [of 1000
     "\<lparr>stat_errno = (\<lambda>name. Some EIO),
      passwd = (\<lambda>uid. Inl (LookupError ''unused'')),
      groupdb = (\<lambda>name. Inl (LookupError ''unused''))\<rparr>" EIO]
    GetFilesharedSocket_other_error [of 1000
     "\<lparr>stat_errno = (\<lambda>name. Some ENOENT),
      passwd = (\<lambda>uid. Inl (LookupError ''unused'')),
      groupdb = (\<lambda>name. Inl (LookupError ''unused''))\<rparr>" ENOENT]
  by (simp add: Itoa_1000)

text \<open>
  Claim C3 says that for uid > 0 the per-user path is returned if and only if
  \<^verbatim>\<open>/run/user/<uid>\<close> exists. Where \<^verbatim>\<open>/run/user\<close> is not a directory, \<^verbatim>\<open>/run/user/1000\<close>
  does not exist and \<^verbatim>\<open>stat\<close> fails with \<^verbatim>\<open>ENOTDIR\<close>, which \<^verbatim>\<open>os.IsNotExist\<close> does not
  count as "does not exist": the per-user path is returned all the same.
\<close>

theorem GetFilesharedSocket_not_a_directory_counterexample:
  "\<not> path_exists
       \<lparr>stat_errno = (\<lambda>name. if name = ''/run/user/1000'' then Some ENOTDIR else None),
      passwd = (\<lambda>uid. Inl (LookupError ''unused'')),
      groupdb = (\<lambda>name. Inl (LookupError ''unused''))\<rparr> ''/run/user/1000'' \<and>
   GetFilesharedSocket
     \<lparr>stat_errno = (\<lambda>name. if name = ''/run/user/1000'' then Some ENOTDIR else None),
      passwd = (\<lambda>uid. Inl (LookupError ''unused'')),
      groupdb = (\<lambda>name. Inl (LookupError ''unused''))\<rparr> 1000
   = ''/run/user/1000/nordfileshared/nordfileshared.sock''"
  by (simp add: GetFilesharedSocket_cases Itoa_1000 path_exists_def)

text \<open>
  Claim C3, as the code has it: for uid 0 the system-wide path is returned whatever the
  probe says; for uid > 0 the system-wide path is returned if and only if the probe of
  \<^verbatim>\<open>/run/user/<uid>\<close> reports \<^verbatim>\<open>ENOENT\<close>, and the per-user path otherwise, in
  particular whenever the directory exists.
\<close>

theorem GetFilesharedSocket_by_probe:
  "GetFilesharedSocket os 0 = ''/run/nordfileshared/nordfileshared.sock'' \<and>
   (0 < uid \<longrightarrow>
      (GetFilesharedSocket os uid = ''/run/nordfileshared/nordfileshared.sock''
         \<longleftrightarrow> stat_errno os (''/run/user/'' @ Itoa uid) = Some ENOENT) \<and>
      (GetFilesharedSocket os uid
           = ''/run/user/'' @ Itoa uid @ ''/nordfileshared/nordfileshared.sock''
         \<longleftrightarrow> stat_errno os (''/run/user/'' @ Itoa uid) \<noteq> Some ENOENT) \<and>
      (path_exists os (''/run/user/'' @ Itoa uid) \<longrightarrow>
         GetFilesharedSocket os uid
           = ''/run/user/'' @ Itoa uid @ ''/nordfileshared/nordfileshared.sock''))"
  by (auto simp add: GetFilesharedSocket_cases path_exists_def)

theorem GetFilesharedSocket_by_probe_witness:
  "GetFilesharedSocket
     \<lparr>stat_errno = (\<lambda>name. if name = ''/run/user/1000'' then None else Some ENOENT),
      passwd = (\<lambda>uid. Inl (LookupError ''unused'')),
      groupdb = (\<lambda>name. Inl (LookupError ''unused''))\<rparr> 0
   = ''/run/nordfileshared/nordfileshared.sock'' \<and>
   GetFilesharedSocket
     \<lparr>stat_errno = (\<lambda>name. if name = ''/run/user/1000'' then None else Some ENOENT),
      passwd = (\<lambda>uid. Inl (LookupError ''unused'')),
      groupdb = (\<lambda>name. Inl (LookupError ''unused''))\<rparr> 1000
   = ''/run/user/1000/nordfileshared/nordfileshared.sock'' \<and>
   GetFilesharedSocket
     \<lparr>stat_errno = (\<lambda>name. if name = ''/run/user/1000'' then None else Some ENOENT),
      passwd = (\<lambda>uid. Inl (LookupError ''unused'')),
      groupdb = (\<lambda>name. Inl (LookupError ''unused''))\<rparr> 1001
   = ''/run/nordfileshared/nordfileshared.sock''"
proof -
  let ?os = "\<lparr>stat_errno = (\<lambda>name. if name = ''/run/user/1000'' then None else Some ENOENT),
      passwd = (\<lambda>uid. Inl (LookupError ''unused'')),
      groupdb = (\<lambda>name. Inl (LookupError ''unused''))\<rparr>"
  have ex: "path_exists ?os (''/run/user/'' @ Itoa 1000)"
    by (simp add: path_exists_def Itoa_1000)
  have gone: "stat_errno ?os (''/run/user/'' @ Itoa 1001) = Some ENOENT"
    by (simp add: Itoa_def digit_char_def digits10.simps)
  from GetFilesharedSocket_by_probe [of ?os 1000] GetFilesharedSocket_by_probe [of ?os 1001]
    ex gone
  show ?thesis by (simp add: Itoa_1000)
qed

subsection \<open>The families of packet filter\<close>

text \<open>
  Claim C8 says that \<^verbatim>\<open>iptables\<close> is in the result for every state of the two flags.
  The code appends it under \<^verbatim>\<open>if PlatformSupportsIPv4\<close>: with that flag off it is
  missing.
\<close>

theorem GetSupportedIPTables_ipv4_off_counterexample:
  "''iptables'' \<notin> set (GetSupportedIPTables
      \<lparr>PlatformSupportsIPv4 = False, PlatformSupportsIPv6 = True\<rparr>)"
  by (simp add: GetSupportedIPTables_def)

text \<open>
  Claim C8, as the code has it: \<^verbatim>\<open>iptables\<close> is in the result exactly when the IPv4 flag
  is set and \<^verbatim>\<open>ip6tables\<close> exactly when the IPv6 flag is set; the result is one of the
  four sequences in which \<^verbatim>\<open>iptables\<close> comes before \<^verbatim>\<open>ip6tables\<close>, and with the flags as
  they are initialised it holds both.
\<close>

theorem GetSupportedIPTables_follows_flags:
  "(''iptables'' \<in> set (GetSupportedIPTables g) \<longleftrightarrow> PlatformSupportsIPv4 g) \<and>
   (''ip6tables'' \<in> set (GetSupportedIPTables g) \<longleftrightarrow> PlatformSupportsIPv6 g) \<and>
   GetSupportedIPTables g
     \<in> {[], [''iptables''], [''ip6tables''], [''iptables'', ''ip6tables'']} \<and>
   GetSupportedIPTables initial_globals = [''iptables'', ''ip6tables'']"
  by (simp add: GetSupportedIPTables_def initial_globals_def Let_def)

theorem GetSupportedIPTables_follows_flags_witness:
  "''iptables'' \<in> set (GetSupportedIPTables
      \<lparr>PlatformSupportsIPv4 = True, PlatformSupportsIPv6 = False\<rparr>) \<and>
   ''ip6tables'' \<notin> set (GetSupportedIPTables
      \<lparr>PlatformSupportsIPv4 = True, PlatformSupportsIPv6 = False\<rparr>)"
  using GetSupportedIPTables_follows_flags
    [of "\<lparr>PlatformSupportsIPv4 = True, PlatformSupportsIPv6 = False\<rparr>"]
  by simp

subsection \<open>The configuration directory of a user\<close>

lemma GetFilesharedConfigDirPath_cases:
  "GetFilesharedConfigDirPath os home =
     (if home = [] then ([], Some (ErrorString ''user does not have a home directory''))
      else if stat_errno os (Clean (home @ ''/.config/nordvpn/'')) = None
      then (Clean (home @ ''/.config/nordvpn/''), None)
      else ([], Some (ErrorString ''.config directory not found in users home directory'')))"
  by (simp add: GetFilesharedConfigDirPath_def Stat_eq_None Let_def ConfigDirectory_def
        UserDataPath_def del: clean_loop.simps)

text \<open>
  Claim C5 says that for a non-empty home directory the result is exactly the string
  \<^verbatim>\<open><home>/.config/nordvpn/\<close> when that path exists. The path is built with
  \<^verbatim>\<open>filepath.Join\<close>, which cleans it: the trailing separator is dropped. On a machine
  where every path exists, the call for \<^verbatim>\<open>/home/u\<close> returns \<^verbatim>\<open>/home/u/.config/nordvpn\<close>.
\<close>

theorem GetFilesharedConfigDirPath_trailing_slash_counterexample:
  "path_exists
     \<lparr>stat_errno = (\<lambda>name. None),
      passwd = (\<lambda>uid. Inl (LookupError ''unused'')),
      groupdb = (\<lambda>name. Inl (LookupError ''unused''))\<rparr> ''/home/u/.config/nordvpn/'' \<and>
   GetFilesharedConfigDirPath
     \<lparr>stat_errno = (\<lambda>name. None),
      passwd = (\<lambda>uid. Inl (LookupError ''unused'')),
      groupdb = (\<lambda>name. Inl (LookupError ''unused''))\<rparr> ''/home/u''
   = (''/home/u/.config/nordvpn'', None) \<and>
   ''/home/u/.config/nordvpn'' \<noteq> ''/home/u'' @ ''/.config/nordvpn/''"
  by (simp add: GetFilesharedConfigDirPath_cases path_exists_def Clean_def at_sep_def)

text \<open>
  Claim C5, as the code has it. The empty string is refused with the error "user does not
  have a home directory" (the spec's InvalidInput). For a non-empty home directory the
  candidate is the cleaned form of \<^verbatim>\<open><home>/.config/nordvpn/\<close>: it is returned, with no
  error, when \<^verbatim>\<open>stat\<close> on it succeeds, and the error ".config directory not found in users
  home directory" (the spec's NotFound) is returned otherwise. The candidate always ends
  in \<^verbatim>\<open>.config/nordvpn\<close> with no trailing separator, and for a home directory that is an
  absolute path in clean form other than \<^verbatim>\<open>/\<close> it is \<^verbatim>\<open><home>/.config/nordvpn\<close>. A path
  returned without error is one on which \<^verbatim>\<open>stat\<close> succeeded.
\<close>

theorem GetFilesharedConfigDirPath_cleaned_path:
  "GetFilesharedConfigDirPath os []
     = ([], Some (ErrorString ''user does not have a home directory'')) \<and>
   (home \<noteq> [] \<longrightarrow>
      (path_exists os (Clean (home @ ''/.config/nordvpn/'')) \<longrightarrow>
         GetFilesharedConfigDirPath os home = (Clean (home @ ''/.config/nordvpn/''), None)) \<and>
      (\<not> path_exists os (Clean (home @ ''/.config/nordvpn/'')) \<longrightarrow>
         GetFilesharedConfigDirPath os home
           = ([], Some (ErrorString ''.config directory not found in users home directory''))) \<and>
      (\<exists>pre. Clean (home @ ''/.config/nordvpn/'') = pre @ ''.config/nordvpn'')) \<and>
   (Clean home = home \<and> hd home = CHR ''/'' \<and> home \<noteq> ''/'' \<longrightarrow>
      Clean (home @ ''/.config/nordvpn/'') = home @ ''/.config/nordvpn'') \<and>
   (snd (GetFilesharedConfigDirPath os home) = None \<longrightarrow>
      path_exists os (fst (GetFilesharedConfigDirPath os home)))"
proof (intro conjI impI)
  show "GetFilesharedConfigDirPath os [] = ([], Some (ErrorString ''user does not have a home directory''))"
    by (simp add: GetFilesharedConfigDirPath_cases)
next
  assume "home \<noteq> []" and "path_exists os (Clean (home @ ''/.config/nordvpn/''))"
  then show "GetFilesharedConfigDirPath os home = (Clean (home @ ''/.config/nordvpn/''), None)"
    by (simp add: GetFilesharedConfigDirPath_cases path_exists_def)
next
  assume "home \<noteq> []" and "\<not> path_exists os (Clean (home @ ''/.config/nordvpn/''))"
  then show "GetFilesharedConfigDirPath os home
           = ([], Some (ErrorString ''.config directory not found in users home directory''))"
    by (simp add: GetFilesharedConfigDirPath_cases path_exists_def)
next
  assume "home \<noteq> []"
  then show "\<exists>pre. Clean (home @ ''/.config/nordvpn/'') = pre @ ''.config/nordvpn''"
    by (rule Clean_config_no_trailing_slash)
next
  assume "Clean home = home \<and> hd home = CHR ''/'' \<and> home \<noteq> ''/''"
  then show "Clean (home @ ''/.config/nordvpn/'') = home @ ''/.config/nordvpn''"
    by (simp add: Clean_home_config)
next
  assume "snd (GetFilesharedConfigDirPath os home) = None"
  then show "path_exists os (fst (GetFilesharedConfigDirPath os home))"
    by (simp add: GetFilesharedConfigDirPath_cases path_exists_def split: if_splits)
qed

theorem GetFilesharedConfigDirPath_cleaned_path_witness:
  "GetFilesharedConfigDirPath
     \<lparr>stat_errno = (\<lambda>name. if name = ''/home/u/.config/nordvpn'' then None else Some ENOENT),
      passwd = (\<lambda>uid. Inl (LookupError ''unused'')),
      groupdb = (\<lambda>name. Inl (LookupError ''unused''))\<rparr> ''/home/u''
   = (''/home/u/.config/nordvpn'', None) \<and>
   GetFilesharedConfigDirPath
     \<lparr>stat_errno = (\<lambda>name. if name = ''/home/u/.config/nordvpn'' then None else Some ENOENT),
      passwd = (\<lambda>uid. Inl (LookupError ''unused'')),
      groupdb = (\<lambda>name. Inl (LookupError ''unused''))\<rparr> ''/home/v''
   = ([], Some (ErrorString ''.config directory not found in users home directory''))"
proof -
  let ?os = "\<lparr>stat_errno = (\<lambda>name. if name = ''/home/u/.config/nordvpn'' then None else Some ENOENT),
      passwd = (\<lambda>uid. Inl (LookupError ''unused'')),
      groupdb = (\<lambda>name. Inl (LookupError ''unused''))\<rparr>"
  have u: "Clean (''/home/u'' @ ''/.config/nordvpn/'') = ''/home/u/.config/nordvpn''"
    by (simp add: Clean_def at_sep_def)
  have v: "Clean (''/home/v'' @ ''/.config/nordvpn/'') = ''/home/v/.config/nordvpn''"
    by (simp add: Clean_def at_sep_def)
  have pu: "path_exists ?os (Clean (''/home/u'' @ ''/.config/nordvpn/''))"
    by (simp only: u) (simp add: path_exists_def)
  have pv: "\<not> path_exists ?os (Clean (''/home/v'' @ ''/.config/nordvpn/''))"
    by (simp only: v) (simp add: path_exists_def)
  from GetFilesharedConfigDirPath_cleaned_path [of ?os "''/home/u''"]
       GetFilesharedConfigDirPath_cleaned_path [of ?os "''/home/v''"] pu pv u
  show ?thesis by simp
qed

text \<open>
  Claim C10: every error of \<^verbatim>\<open>stat\<close> on the candidate path, whatever its error number,
  gives the same "directory not found" error, and the error is \<^verbatim>\<open>nil\<close> only when the home
  directory is not empty and \<^verbatim>\<open>stat\<close> on the candidate succeeded.
\<close>

theorem GetFilesharedConfigDirPath_any_stat_error:
  "(homeDirectory \<noteq> [] \<and>
    stat_errno os (Join [homeDirectory, ConfigDirectory, UserDataPath]) = Some e \<longrightarrow>
      GetFilesharedConfigDirPath os homeDirectory
        = ([], Some (ErrorString ''.config directory not found in users home directory''))) \<and>
   (snd (GetFilesharedConfigDirPath os homeDirectory) = None \<longrightarrow>
      homeDirectory \<noteq> [] \<and>
      stat_errno os (Join [homeDirectory, ConfigDirectory, UserDataPath]) = None)"
  by (auto simp add: GetFilesharedConfigDirPath_def Stat_def Let_def ConfigDirectory_def
        split: if_splits simp del: Join.simps)

theorem GetFilesharedConfigDirPath_any_stat_error_witness:
  "GetFilesharedConfigDirPath
     \<lparr>stat_errno = (\<lambda>name. Some EACCES),
      passwd = (\<lambda>uid. Inl (LookupError ''unused'')),
      groupdb = (\<lambda>name. Inl (LookupError ''unused''))\<rparr> ''/home/u''
   = ([], Some (ErrorString ''.config directory not found in users home directory''))"
  using GetFilesharedConfigDirPath_any_stat_error [of "''/home/u''"
     "\<lparr>stat_errno = (\<lambda>name. Some EACCES),
      passwd = (\<lambda>uid. Inl (LookupError ''unused'')),
      groupdb = (\<lambda>name. Inl (LookupError ''unused''))\<rparr>" EACCES]
  by simp

subsection \<open>The log file of the file-sharing service\<close>

text \<open>
  Claim C6: for the uid string \<^verbatim>\<open>0\<close> the result is \<^verbatim>\<open>/var/log/nordvpn/nordfileshared.log\<close>,
  with nothing logged, whatever the machine answers.
\<close>

theorem GetFilesharedLogPath_root:
  "GetFilesharedLogPath os ''0'' = ([], Return ''/var/log/nordvpn/nordfileshared.log'')"
  by (simp add: GetFilesharedLogPath_def LogPath_def Fileshared_def Clean_def at_sep_def)

text \<open>
  The two ways to fail. When the lookup of the user fails, the line is logged and
  \<^verbatim>\<open>usr.HomeDir\<close> is read through the \<^verbatim>\<open>nil\<close> pointer. When the user is known and the
  configuration directory is not found, the fallback path under \<^verbatim>\<open>/var/log/nordvpn/\<close> is
  returned (for a uid string without a separator, as every uid of a known user is).
\<close>

lemma GetFilesharedLogPath_lookup_failure:
  assumes "uid \<noteq> ''0''" and "passwd os uid = Inl e"
  shows "GetFilesharedLogPath os uid =
           ([(''failed to lookup user, users fileshared logs will be stored in %s: %s'',
              [Str ''/var/log/nordvpn/'', ErrorText e])], Panic)"
  using assms by (simp add: GetFilesharedLogPath_def LookupId_def LogPath_def)

lemma GetFilesharedLogPath_config_failure:
  assumes "uid \<noteq> ''0''" and "passwd os uid = Inr u"
    and "GetFilesharedConfigDirPath os (HomeDir u) = (d, Some e)"
    and "CHR ''/'' \<notin> set uid"
  shows "GetFilesharedLogPath os uid =
           ([(''users fileshared logs will be stored in %s: %s'',
              [Str ''/var/log/nordvpn/'', ErrorText e])],
            Return (''/var/log/nordvpn/nordfileshared-'' @ uid @ ''.log''))"
  using assms Join_LogPath_element [of uid]
  by (simp add: GetFilesharedLogPath_def LookupId_def del: Join.simps) (simp add: LogPath_def)

lemma GetFilesharedLogPath_known_user_returns:
  assumes "passwd os uid = Inr u"
  shows "\<exists>logged name. GetFilesharedLogPath os uid = (logged, Return name)"
proof (cases "GetFilesharedConfigDirPath os (HomeDir u)")
  case (Pair d err)
  with assms show ?thesis
    by (cases err) (simp_all add: GetFilesharedLogPath_def LookupId_def Let_def del: Join.simps)
qed

text \<open>
  Claim C1 says that for a uid string other than \<^verbatim>\<open>0\<close> a path is returned even when the
  lookup of the user fails. Evaluated for the uid string \<^verbatim>\<open>4242\<close> on a machine with no such
  user, the code logs that the logs will be stored in \<^verbatim>\<open>/var/log/nordvpn/\<close> and then
  panics: it returns no path.
\<close>

theorem GetFilesharedLogPath_unknown_uid_panics:
  "GetFilesharedLogPath
     \<lparr>stat_errno = (\<lambda>name. None),
      passwd = (\<lambda>uid. Inl (UnknownUserIdError 4242)),
      groupdb = (\<lambda>name. Inl (LookupError ''unused''))\<rparr> ''4242''
   = ([(''failed to lookup user, users fileshared logs will be stored in %s: %s'',
        [Str ''/var/log/nordvpn/'', ErrorText (UnknownUserIdError 4242)])], Panic)"
  by (simp add: GetFilesharedLogPath_lookup_failure)

text \<open>
  Claim C4 says that a failed lookup of the user and a failed resolution of the
  configuration directory give the same fallback path. Evaluated on a machine that knows
  uid \<^verbatim>\<open>1000\<close> (whose configuration directory is missing) and no other: for \<^verbatim>\<open>1000\<close> the
  warning is logged and \<^verbatim>\<open>/var/log/nordvpn/nordfileshared-1000.log\<close> is returned, for
  \<^verbatim>\<open>4242\<close> the warning is logged and the code panics.
\<close>

theorem GetFilesharedLogPath_failure_paths_differ:
  "GetFilesharedLogPath
     \<lparr>stat_errno = (\<lambda>name. Some ENOENT),
      passwd = (\<lambda>uid. if uid = ''1000''
                        then Inr \<lparr>Uid = ''1000'', UserGid = ''1000'', Username = ''u'',
                                  Name = ''U'', HomeDir = ''/home/u''\<rparr>
                        else Inl (UnknownUserIdError 4242)),
      groupdb = (\<lambda>name. Inl (LookupError ''unused''))\<rparr> ''1000''
   = ([(''users fileshared logs will be stored in %s: %s'',
        [Str ''/var/log/nordvpn/'',
         ErrorText (ErrorString ''.config directory not found in users home directory'')])],
      Return ''/var/log/nordvpn/nordfileshared-1000.log'') \<and>
   GetFilesharedLogPath
     \<lparr>stat_errno = (\<lambda>name. Some ENOENT),
      passwd = (\<lambda>uid. if uid = ''1000''
                        then Inr \<lparr>Uid = ''1000'', UserGid = ''1000'', Username = ''u'',
                                  Name = ''U'', HomeDir = ''/home/u''\<rparr>
                        else Inl (UnknownUserIdError 4242)),
      groupdb = (\<lambda>name. Inl (LookupError ''unused''))\<rparr> ''4242''
   = ([(''failed to lookup user, users fileshared logs will be stored in %s: %s'',
        [Str ''/var/log/nordvpn/'', ErrorText (UnknownUserIdError 4242)])], Panic)"
proof -
  let ?u = "\<lparr>Uid = ''1000'', UserGid = ''1000'', Username = ''u'', Name = ''U'', HomeDir = ''/home/u''\<rparr>"
  let ?os = "\<lparr>stat_errno = (\<lambda>name. Some ENOENT),
      passwd = (\<lambda>uid. if uid = ''1000'' then Inr ?u else Inl (UnknownUserIdError 4242)),
      groupdb = (\<lambda>name. Inl (LookupError ''unused''))\<rparr>"
  have cfg: "GetFilesharedConfigDirPath ?os ''/home/u''
             = ([], Some (ErrorString ''.config directory not found in users home directory''))"
    by (simp add: GetFilesharedConfigDirPath_cases)
  have "GetFilesharedLogPath ?os ''1000''
        = ([(''users fileshared logs will be stored in %s: %s'',
             [Str ''/var/log/nordvpn/'',
              ErrorText (ErrorString ''.config directory not found in users home directory'')])],
           Return (''/var/log/nordvpn/nordfileshared-'' @ ''1000'' @ ''.log''))"
    by (rule GetFilesharedLogPath_config_failure [where u = ?u and d = "[]"]) (simp_all add: cfg)
  moreover have "GetFilesharedLogPath ?os ''4242''
        = ([(''failed to lookup user, users fileshared logs will be stored in %s: %s'',
             [Str ''/var/log/nordvpn/'', ErrorText (UnknownUserIdError 4242)])], Panic)"
    by (rule GetFilesharedLogPath_lookup_failure) simp_all
  ultimately show ?thesis by simp
qed

subsection \<open>The id of the group nordvpn\<close>

lemma GetNordvpnGid_cases:
  "GetNordvpnGid os =
     (case groupdb os NordvpnGroup of Inl e \<Rightarrow> Return (0, Some e) | Inr g \<Rightarrow> Return (Atoi (Gid g)))"
  by (simp add: GetNordvpnGid_def LookupGroup_def split: sum.splits)

text \<open>
  Claim C7: when the lookup of the group fails, its error is returned unchanged (for a
  group that does not exist, os/user's \<open>UnknownGroupError\<close>, the spec's NotFound), with
  the number 0 beside it. When the error is \<^verbatim>\<open>nil\<close>, the group was found and the number
  is what \<^verbatim>\<open>Atoi\<close> reads from its \<open>Gid\<close>; for a \<open>Gid\<close> that is the decimal form of a number
  \<open>k\<close> (below \<open>2 ^ 63\<close>), the number is \<open>k\<close>. The pointer is never \<^verbatim>\<open>nil\<close> where it is read.
\<close>

theorem GetNordvpnGid_no_default:
  "(groupdb os NordvpnGroup = Inl e \<longrightarrow> GetNordvpnGid os = Return (0, Some e)) \<and>
   (GetNordvpnGid os = Return (n, None) \<longrightarrow>
      (\<exists>g. groupdb os NordvpnGroup = Inr g \<and> Atoi (Gid g) = (n, None))) \<and>
   (groupdb os NordvpnGroup = Inr g \<and> Gid g = Itoa k \<and> 0 \<le> k \<and> k < 2 ^ 63 \<longrightarrow>
      GetNordvpnGid os = Return (k, None)) \<and>
   GetNordvpnGid os \<noteq> Panic"
  by (auto simp add: GetNordvpnGid_cases Atoi_Itoa split: sum.splits)

theorem GetNordvpnGid_no_default_witness:
  "GetNordvpnGid
     \<lparr>stat_errno = (\<lambda>name. None),
      passwd = (\<lambda>uid. Inl (LookupError ''unused'')),
      groupdb = (\<lambda>name. Inl (UnknownGroupError name))\<rparr>
   = Return (0, Some (UnknownGroupError ''nordvpn'')) \<and>
   GetNordvpnGid
     \<lparr>stat_errno = (\<lambda>name. None),
      passwd = (\<lambda>uid. Inl (LookupError ''unused'')),
      groupdb = (\<lambda>name. Inr \<lparr>Gid = ''1000'', GroupName = name\<rparr>)\<rparr>
   = Return (1000, None)"
  using GetNordvpnGid_no_default [of
     "\<lparr>stat_errno = (\<lambda>name. None),
      passwd = (\<lambda>uid. Inl (LookupError ''unused'')),
      groupdb = (\<lambda>name. Inl (UnknownGroupError name))\<rparr>" "UnknownGroupError ''nordvpn''"]
    GetNordvpnGid_no_default [of
     "\<lparr>stat_errno = (\<lambda>name. None),
      passwd = (\<lambda>uid. Inl (LookupError ''unused'')),
      groupdb = (\<lambda>name. Inr \<lparr>Gid = ''1000'', GroupName = name\<rparr>)\<rparr>" _ _
     "\<lparr>Gid = ''1000'', GroupName = ''nordvpn''\<rparr>" 1000]
  by (simp add: NordvpnGroup_def Itoa_1000)

subsection \<open>The places each operation reads\<close>

text \<open>
  Each operation reads the machine at a few places only: the probe of one path, the entry
  of one uid, the entry of one group. Its value in the model is the same on two states
  that answer the same there.
\<close>

lemma GetFilesharedSocket_depends:
  "stat_errno os1 (''/run/user/'' @ Itoa uid) = stat_errno os2 (''/run/user/'' @ Itoa uid)
   \<Longrightarrow> GetFilesharedSocket os1 uid = GetFilesharedSocket os2 uid"
  by (simp add: GetFilesharedSocket_cases)

lemma GetFilesharedConfigDirPath_depends:
  "stat_errno os1 (Join [home, ConfigDirectory, UserDataPath])
     = stat_errno os2 (Join [home, ConfigDirectory, UserDataPath])
   \<Longrightarrow> GetFilesharedConfigDirPath os1 home = GetFilesharedConfigDirPath os2 home"
  by (simp add: GetFilesharedConfigDirPath_def Stat_def Let_def del: Join.simps)

lemma GetFilesharedLogPath_depends:
  assumes "passwd os1 uid = passwd os2 uid"
    and "\<And>u. passwd os1 uid = Inr u \<Longrightarrow>
           stat_errno os1 (Join [HomeDir u, ConfigDirectory, UserDataPath])
             = stat_errno os2 (Join [HomeDir u, ConfigDirectory, UserDataPath])"
  shows "GetFilesharedLogPath os1 uid = GetFilesharedLogPath os2 uid"
proof (cases "passwd os1 uid")
  case (Inl e)
  with assms(1) have "passwd os2 uid = Inl e" by simp
  with Inl show ?thesis
    by (simp add: GetFilesharedLogPath_def LookupId_def Let_def del: Join.simps)
next
  case (Inr u)
  from assms(2) [OF Inr]
  have cfg: "GetFilesharedConfigDirPath os1 (HomeDir u) = GetFilesharedConfigDirPath os2 (HomeDir u)"
    by (rule GetFilesharedConfigDirPath_depends)
  from Inr assms(1) have "passwd os2 uid = Inr u" by simp
  with Inr cfg show ?thesis
    by (simp add: GetFilesharedLogPath_def LookupId_def Let_def del: Join.simps)
qed

lemma GetNordvpnGid_depends:
  "groupdb os1 NordvpnGroup = groupdb os2 NordvpnGroup \<Longrightarrow> GetNordvpnGid os1 = GetNordvpnGid os2"
  by (simp add: GetNordvpnGid_cases)

end
